theory Spec2Isabelle
  imports Main
begin

section \<open>The environment: configuration, zone database, clocks\<close>

text \<open>
  The bot reads three things from outside the program text: the configured default zone
  (\<open>DEFAULT_TZ = os.getenv("LOCAL_TZ", "Asia/Tashkent")\<close>), the zone database of pytz
  (\<open>all_timezones\<close> and \<open>tz_get\<close>), and the zone of the host process, which is what
  \<open>date.today()\<close> uses. An instant is a number of POSIX seconds; a zone is given by its
  offset from UTC, in seconds, at each instant. \<open>utcoffset env n\<close> is the offset function of the
  zone \<open>tz_get(n)\<close>. The default zone is one that \<open>tz_get\<close> accepts: \<open>scheduler_job\<close> builds
  its triggers from \<open>tz_get(DEFAULT_TZ)\<close> before any sweep runs.
\<close>

record env =
  DEFAULT_TZ :: string
  all_timezones :: "string list"
  utcoffset :: "string \<Rightarrow> int \<Rightarrow> int"
  host_utcoffset :: "int \<Rightarrow> int"

subsection \<open>Calendar dates\<close>

text \<open>
  A \<open>date\<close> object is the number of days since 1970-01-01; two dates are equal when the
  numbers are. \<open>isoformat\<close> prints it as \<open>YYYY-MM-DD\<close> in the proleptic Gregorian calendar,
  as \<open>datetime.date.isoformat\<close> does for the years 1 to 9999.
\<close>

definition digit :: "int \<Rightarrow> char" where
  "digit n = char_of (48 + n mod 10)"

definition pad2 :: "int \<Rightarrow> string" where
  "pad2 n = [digit (n div 10), digit n]"

definition pad4 :: "int \<Rightarrow> string" where
  "pad4 n = [digit (n div 1000), digit (n div 100), digit (n div 10), digit n]"

definition civil_from_days :: "int \<Rightarrow> int \<times> int \<times> int" where
  "civil_from_days z0 =
     (let z = z0 + 719468;
          era = z div 146097;
          doe = z mod 146097;
          yoe = (doe - doe div 1460 + doe div 36524 - doe div 146096) div 365;
          doy = doe - (365 * yoe + yoe div 4 - yoe div 100);
          mp = (5 * doy + 2) div 153;
          d = doy - (153 * mp + 2) div 5 + 1;
          m = (if mp < 10 then mp + 3 else mp - 9);
          y = yoe + era * 400 + (if m \<le> 2 then 1 else 0)
      in (y, m, d))"

definition isoformat :: "int \<Rightarrow> string" where
  "isoformat day =
     (case civil_from_days day of (y, m, d) \<Rightarrow> pad4 y @ ''-'' @ pad2 m @ ''-'' @ pad2 d)"

definition local_day :: "env \<Rightarrow> string \<Rightarrow> int \<Rightarrow> int" where
  \<comment> \<open>\<open>datetime.now(tz_get(name)).date()\<close> at the instant \<open>now\<close>\<close>
  "local_day env name now = (now + utcoffset env name now) div 86400"

definition date_today :: "env \<Rightarrow> int \<Rightarrow> int" where
  \<comment> \<open>\<open>date.today()\<close>: the date on the host's own clock, whatever \<open>DEFAULT_TZ\<close> is\<close>
  "date_today env now = (now + host_utcoffset env now) div 86400"

definition resolve_tz :: "env \<Rightarrow> string \<Rightarrow> string" where
  \<comment> \<open>\<open>if user_tz_name not in all_timezones: user_tz_name = DEFAULT_TZ\<close>\<close>
  "resolve_tz env user_tz_name =
     (if user_tz_name \<in> set (all_timezones env) then user_tz_name else DEFAULT_TZ env)"

section \<open>Persistence\<close>

record UserRecord =
  handle :: "string option"
  timezone :: string
  last_notified :: "(string \<times> string) list option"

definition new_record :: "env \<Rightarrow> UserRecord" where
  \<comment> \<open>\<open>UserRecord()\<close>: the dataclass defaults\<close>
  "new_record env = \<lparr>handle = None, timezone = DEFAULT_TZ env, last_notified = None\<rparr>"

text \<open>
  A Python dict keeps its keys in insertion order and holds each key once. It is an
  association list here; \<open>dict_set\<close> is \<open>d[k] = v\<close>: it overwrites in place or appends.
\<close>

fun dict_set :: "'k \<Rightarrow> 'v \<Rightarrow> ('k \<times> 'v) list \<Rightarrow> ('k \<times> 'v) list" where
  "dict_set k v [] = [(k, v)]"
| "dict_set k v ((k', v') # d) = (if k' = k then (k, v) # d else (k', v') # dict_set k v d)"

datatype json =
    JNull
  | JBool bool
  | JNum int
  | JStr string
  | JArr "json list"
  | JObj "(string \<times> json) list"

text \<open>
  The state of the program: the global \<open>DB\<close> and the content of \<open>DATA_FILE\<close>
  (\<open>None\<close> while the file does not exist). The file holds the JSON value that
  \<open>json.dump\<close> wrote and \<open>json.load\<close> gives back.
\<close>

record state =
  DB :: "(string \<times> UserRecord) list"
  DATA_FILE :: "json option"

definition notified_map :: "UserRecord \<Rightarrow> (string \<times> string) list" where
  "notified_map r = (case last_notified r of None \<Rightarrow> [] | Some d \<Rightarrow> d)"

definition to_dict :: "UserRecord \<Rightarrow> json" where
  "to_dict r =
     JObj [(''handle'', (case handle r of None \<Rightarrow> JNull | Some h \<Rightarrow> JStr h)),
           (''timezone'', JStr (timezone r)),
           (''last_notified'', JObj (map (\<lambda>(k, v). (k, JStr v)) (notified_map r)))]"

definition save_db :: "state \<Rightarrow> state" where
  "save_db st = st\<lparr>DATA_FILE := Some (JObj (map (\<lambda>(k, v). (k, to_dict v)) (DB st)))\<rparr>"

text \<open>
  \<open>load_db\<close> reads untyped JSON. The result is \<open>None\<close> where Python raises (the file or
  an entry is not an object) and where a field holds a value that the typed record
  cannot hold (Python would store it as it is).
\<close>

fun load_handle :: "json option \<Rightarrow> string option option" where
  "load_handle None = Some None"
| "load_handle (Some JNull) = Some None"
| "load_handle (Some (JStr s)) = Some (Some s)"
| "load_handle (Some _) = None"

fun load_timezone :: "env \<Rightarrow> json option \<Rightarrow> string option" where
  "load_timezone env None = Some (DEFAULT_TZ env)"
| "load_timezone env (Some (JStr s)) = Some s"
| "load_timezone env (Some _) = None"

fun load_dates :: "(string \<times> json) list \<Rightarrow> (string \<times> string) list option" where
  "load_dates [] = Some []"
| "load_dates ((k, JStr v) # kvs) =
     (case load_dates kvs of None \<Rightarrow> None | Some d \<Rightarrow> Some ((k, v) # d))"
| "load_dates ((k, _) # kvs) = None"

fun load_last_notified :: "json option \<Rightarrow> (string \<times> string) list option option" where
  "load_last_notified None = Some (Some [])"
| "load_last_notified (Some JNull) = Some None"
| "load_last_notified (Some (JObj kvs)) =
     (case load_dates kvs of None \<Rightarrow> None | Some d \<Rightarrow> Some (Some d))"
| "load_last_notified (Some _) = None"

fun load_record :: "env \<Rightarrow> json \<Rightarrow> UserRecord option" where
  "load_record env (JObj v) =
     (case load_handle (map_of v ''handle'') of
        None \<Rightarrow> None
      | Some h \<Rightarrow>
          (case load_timezone env (map_of v ''timezone'') of
             None \<Rightarrow> None
           | Some tz \<Rightarrow>
               (case load_last_notified (map_of v ''last_notified'') of
                  None \<Rightarrow> None
                | Some ln \<Rightarrow> Some \<lparr>handle = h, timezone = tz, last_notified = ln\<rparr>)))"
| "load_record env _ = None"

fun load_items :: "env \<Rightarrow> (string \<times> json) list \<Rightarrow> (string \<times> UserRecord) list option" where
  "load_items env [] = Some []"
| "load_items env ((k, v) # raw) =
     (case load_record env v of
        None \<Rightarrow> None
      | Some r \<Rightarrow> (case load_items env raw of None \<Rightarrow> None | Some out \<Rightarrow> Some ((k, r) # out)))"

fun load_db :: "env \<Rightarrow> json option \<Rightarrow> (string \<times> UserRecord) list option" where
  "load_db env None = Some []"
| "load_db env (Some (JObj raw)) = load_items env raw"
| "load_db env (Some _) = None"

section \<open>Helpers\<close>

subsection \<open>The submission feed\<close>

text \<open>
  The answer of \<open>user.status\<close>, as \<open>cf_has_solved_today\<close> reads it: \<open>status\<close>, \<open>result\<close>,
  and in each submission \<open>verdict\<close> and \<open>creationTimeSeconds\<close>; \<open>None\<close> is what \<open>.get\<close>
  returns for a missing key. A request that raises (network, timeout, no JSON) is an error.
\<close>

datatype error = FeedError | OverflowError

record submission =
  verdict :: "string option"
  creationTimeSeconds :: "int option"

record feed_response =
  status :: "string option"
  result :: "submission list option"

type_synonym feed = "string \<Rightarrow> error + feed_response"

definition result_list :: "feed_response \<Rightarrow> submission list" where
  \<comment> \<open>\<open>data.get("result", [])\<close>\<close>
  "result_list data = (case result data of None \<Rightarrow> [] | Some subs \<Rightarrow> subs)"

definition MIN_TS :: int where
  \<comment> \<open>0001-01-01T00:00:00, the first instant a \<open>datetime\<close> holds\<close>
  "MIN_TS = - 62135596800"

definition MAX_TS :: int where
  \<comment> \<open>9999-12-31T23:59:59, the last one\<close>
  "MAX_TS = 253402300799"

definition submission_day :: "env \<Rightarrow> string \<Rightarrow> int \<Rightarrow> error + int" where
  \<comment> \<open>\<open>datetime.fromtimestamp(ts, tz=timezone.utc).astimezone(user_tz).date()\<close>;
      both steps raise outside the range of \<open>datetime\<close>\<close>
  "submission_day env name ts =
     (if ts < MIN_TS \<or> MAX_TS < ts then Inl OverflowError
      else if ts + utcoffset env name ts < MIN_TS \<or> MAX_TS < ts + utcoffset env name ts
        then Inl OverflowError
      else Inr ((ts + utcoffset env name ts) div 86400))"

fun scan_submissions :: "env \<Rightarrow> string \<Rightarrow> int \<Rightarrow> submission list \<Rightarrow> error + bool" where
  "scan_submissions env name today_local [] = Inr False"
| "scan_submissions env name today_local (sub # subs) =
     (if verdict sub = Some ''OK'' then
        (case creationTimeSeconds sub of
           None \<Rightarrow> scan_submissions env name today_local subs
         | Some ts \<Rightarrow>
             (case submission_day env name ts of
                Inl e \<Rightarrow> Inl e
              | Inr d \<Rightarrow>
                  if d = today_local then Inr True
                  else scan_submissions env name today_local subs))
      else scan_submissions env name today_local subs)"

text \<open>The parameter \<open>handle\<close> of the source is \<open>handle_name\<close> here: \<open>handle\<close> is the field of the record.\<close>

definition cf_has_solved_today :: "env \<Rightarrow> int \<Rightarrow> feed \<Rightarrow> string \<Rightarrow> string \<Rightarrow> error + bool" where
  "cf_has_solved_today env now fetch handle_name user_tz_name =
     (if handle_name = [] then Inr False
      else
        let user_tz = resolve_tz env user_tz_name;
            today_local = local_day env user_tz now
        in (case fetch handle_name of
              Inl e \<Rightarrow> Inl e
            | Inr data \<Rightarrow>
                if status data \<noteq> Some ''OK'' then Inr False
                else scan_submissions env user_tz today_local (result_list data)))"

subsection \<open>The dedup state\<close>

text \<open>
  \<open>mark_notified\<close>: \<open>r\<close> is the record that \<open>DB.setdefault(user_id, UserRecord())\<close>
  returns, \<open>notified_map r\<close> its \<open>last_notified\<close> after \<open>None\<close> was replaced by \<open>{}\<close>; the
  record is changed in place, which for the store is \<open>DB[user_id] = r'\<close>; then \<open>save_db(DB)\<close>.
\<close>

definition mark_notified :: "env \<Rightarrow> int \<Rightarrow> string \<Rightarrow> string \<Rightarrow> state \<Rightarrow> state" where
  "mark_notified env now user_id slot st =
     (let r = (case map_of (DB st) user_id of None \<Rightarrow> new_record env | Some r0 \<Rightarrow> r0);
          r' = r\<lparr>last_notified :=
                   Some (dict_set slot (isoformat (date_today env now)) (notified_map r))\<rparr>
      in save_db (st\<lparr>DB := dict_set user_id r' (DB st)\<rparr>))"

definition already_notified_today :: "env \<Rightarrow> int \<Rightarrow> string \<Rightarrow> string \<Rightarrow> string \<Rightarrow> state \<Rightarrow> bool" where
  "already_notified_today env now user_id slot user_tz_name st =
     (case map_of (DB st) user_id of
        None \<Rightarrow> False
      | Some r \<Rightarrow>
          (case last_notified r of
             None \<Rightarrow> False
           | Some d \<Rightarrow>
               map_of d slot = Some (isoformat (local_day env (resolve_tz env user_tz_name) now))))"

section \<open>Command handlers\<close>

datatype reply = SettzUsage | SettzInvalid | SettzSaved string

definition cmd_settz :: "env \<Rightarrow> string \<Rightarrow> string list \<Rightarrow> state \<Rightarrow> state \<times> reply" where
  "cmd_settz env uid args st =
     (case args of
        [] \<Rightarrow> (st, SettzUsage)
      | tz_name # _ \<Rightarrow>
          if tz_name \<notin> set (all_timezones env) then (st, SettzInvalid)
          else
            let r = (case map_of (DB st) uid of None \<Rightarrow> new_record env | Some r0 \<Rightarrow> r0)
            in (save_db (st\<lparr>DB := dict_set uid (r\<lparr>timezone := tz_name\<rparr>) (DB st)\<rparr>),
                SettzSaved tz_name))"

section \<open>Reminder logic\<close>

text \<open>
  What a sweep does to the outside: a request to the feed for a handle, a reminder
  delivered to a chat, a delivery that raised. Each event carries the user id of the
  iteration that caused it. \<open>deliver uid\<close> tells whether \<open>int(uid)\<close> and \<open>send_message\<close>
  return without raising. One sweep is one pass of the loop with no other coroutine
  touching \<open>DB\<close> in between; its clock reads all see the instant \<open>now\<close>, the feed
  answers as \<open>fetch\<close> says, and writing \<open>DATA_FILE\<close> succeeds.
\<close>

datatype event =
    FeedRequest string string
  | Sent string string string
  | SendFailed string string string

fun event_uid :: "event \<Rightarrow> string" where
  "event_uid (FeedRequest uid h) = uid"
| "event_uid (Sent uid slot h) = uid"
| "event_uid (SendFailed uid slot h) = uid"

fun is_sent :: "event \<Rightarrow> bool" where
  "is_sent (Sent uid slot h) = True"
| "is_sent _ = False"

definition remind_user ::
  "env \<Rightarrow> int \<Rightarrow> feed \<Rightarrow> (string \<Rightarrow> bool) \<Rightarrow> string \<Rightarrow> string \<Rightarrow> UserRecord \<Rightarrow> state
     \<Rightarrow> state \<times> event list" where
  \<comment> \<open>the body of the loop of \<open>send_reminders\<close>\<close>
  "remind_user env now fetch deliver slot uid r st =
     (case handle r of
        None \<Rightarrow> (st, [])
      | Some h \<Rightarrow>
          if h = [] then (st, [])
          else if already_notified_today env now uid slot (timezone r) st then (st, [])
          else
            let ok_today = (case cf_has_solved_today env now fetch h (timezone r) of
                              Inl e \<Rightarrow> False
                            | Inr b \<Rightarrow> b)
            in if \<not> ok_today then
                 (if deliver uid
                  then (mark_notified env now uid slot st, [FeedRequest uid h, Sent uid slot h])
                  else (st, [FeedRequest uid h, SendFailed uid slot h]))
               else (mark_notified env now uid slot st, [FeedRequest uid h]))"

text \<open>
  The loop \<open>for uid, rec in DB.items()\<close>. Of \<open>rec\<close> the body reads the handle and the
  zone, which no iteration changes; the dedup state is read and written through \<open>DB\<close>
  itself, by \<open>already_notified_today\<close> and \<open>mark_notified\<close>.
\<close>

fun sweep ::
  "env \<Rightarrow> int \<Rightarrow> feed \<Rightarrow> (string \<Rightarrow> bool) \<Rightarrow> string \<Rightarrow> (string \<times> UserRecord) list \<Rightarrow> state
     \<Rightarrow> state \<times> event list" where
  "sweep env now fetch deliver slot [] st = (st, [])"
| "sweep env now fetch deliver slot ((uid, r) # items) st =
     (case remind_user env now fetch deliver slot uid r st of
        (st1, ev1) \<Rightarrow>
          (case sweep env now fetch deliver slot items st1 of
             (st2, ev2) \<Rightarrow> (st2, ev1 @ ev2)))"

definition send_reminders ::
  "env \<Rightarrow> int \<Rightarrow> feed \<Rightarrow> (string \<Rightarrow> bool) \<Rightarrow> string \<Rightarrow> state \<Rightarrow> state \<times> event list" where
  "send_reminders env now fetch deliver slot st = sweep env now fetch deliver slot (DB st) st"

section \<open>Observations used by the properties\<close>

text \<open>\<open>slot_date st uid slot\<close> is \<open>lastNotified[slot]\<close> of the record of \<open>uid\<close>, if there is one.\<close>

definition slot_date :: "state \<Rightarrow> string \<Rightarrow> string \<Rightarrow> string option" where
  "slot_date st uid slot =
     (case map_of (DB st) uid of None \<Rightarrow> None | Some r \<Rightarrow> map_of (notified_map r) slot)"

text \<open>
  The specification's reading of "accepted today": the verdict is the accepting one and
  the submission instant, moved into the zone, falls on the given local day.
\<close>

definition spec_accepted_on :: "env \<Rightarrow> string \<Rightarrow> int \<Rightarrow> submission \<Rightarrow> bool" where
  "spec_accepted_on env name day sub =
     (verdict sub = Some ''OK'' \<and>
      (case creationTimeSeconds sub of
         None \<Rightarrow> False
       | Some ts \<Rightarrow> (ts + utcoffset env name ts) div 86400 = day))"

text \<open>
  An accepted submission is in range when its instant, in UTC and in the zone, is one
  that a \<open>datetime\<close> can hold (the years 1 to 9999).
\<close>

definition in_datetime_range :: "env \<Rightarrow> string \<Rightarrow> submission \<Rightarrow> bool" where
  "in_datetime_range env name sub =
     (if verdict sub = Some ''OK'' then
        (case creationTimeSeconds sub of
           None \<Rightarrow> True
         | Some ts \<Rightarrow> MIN_TS \<le> ts \<and> ts \<le> MAX_TS \<and>
                      MIN_TS \<le> ts + utcoffset env name ts \<and> ts + utcoffset env name ts \<le> MAX_TS)
      else True)"

text \<open>What the record store promises to keep of a record: handle, zone, and the dates as a mapping.\<close>

definition record_view :: "UserRecord \<Rightarrow> string option \<times> string \<times> (string \<times> string) list" where
  "record_view r = (handle r, timezone r, notified_map r)"

section \<open>Concrete scenarios\<close>

text \<open>
  Four zones with their offsets in January 2024, and two deployments with the default
  zone \<open>Asia/Tashkent\<close>: one on a host whose clock runs in \<open>Asia/Tashkent\<close>, one on a host
  in \<open>America/Los_Angeles\<close>. The instants used below are, on 2024-01-15,
  \<open>1705287600\<close> = 03:00 UTC = 08:00 in Tashkent, \<open>1705302000\<close> = 07:00 UTC = 12:00 in
  Tashkent, and \<open>1705338000\<close> = 17:00 UTC = 22:00 in Tashkent = 02:00 on 2024-01-16 in Tokyo.
\<close>

definition zone_table :: "(string \<times> int) list" where
  "zone_table = [(''Asia/Tashkent'', 18000), (''Asia/Tokyo'', 32400), (''UTC'', 0),
                 (''America/Los_Angeles'', - 28800)]"

definition zone_offset :: "string \<Rightarrow> int \<Rightarrow> int" where
  "zone_offset n t = (case map_of zone_table n of None \<Rightarrow> 0 | Some off \<Rightarrow> off)"

definition env_tashkent :: env where
  "env_tashkent = \<lparr>DEFAULT_TZ = ''Asia/Tashkent'', all_timezones = map fst zone_table,
     utcoffset = zone_offset, host_utcoffset = zone_offset ''Asia/Tashkent''\<rparr>"

definition env_la_host :: env where
  "env_la_host = \<lparr>DEFAULT_TZ = ''Asia/Tashkent'', all_timezones = map fst zone_table,
     utcoffset = zone_offset, host_utcoffset = zone_offset ''America/Los_Angeles''\<rparr>"

definition st_tokyo :: state where
  "st_tokyo = \<lparr>DB = [(''42'', \<lparr>handle = Some ''tourist'', timezone = ''Asia/Tokyo'',
                              last_notified = None\<rparr>)], DATA_FILE = None\<rparr>"

definition st_tashkent :: state where
  "st_tashkent = \<lparr>DB = [(''42'', \<lparr>handle = Some ''tourist'', timezone = ''Asia/Tashkent'',
                                 last_notified = None\<rparr>),
                        (''7'', \<lparr>handle = None, timezone = ''Asia/Tashkent'',
                                last_notified = Some [(''08:00'', ''2024-01-14'')]\<rparr>)],
                  DATA_FILE = None\<rparr>"

definition feed_unsolved :: feed where
  "feed_unsolved h = Inr \<lparr>status = Some ''OK'', result = Some []\<rparr>"

definition feed_solved :: feed where
  \<comment> \<open>a rejected submission, and one accepted at 07:55 in Tashkent on 2024-01-15\<close>
  "feed_solved h = Inr \<lparr>status = Some ''OK'',
     result = Some [\<lparr>verdict = Some ''WRONG_ANSWER'', creationTimeSeconds = Some 1705287400\<rparr>,
                    \<lparr>verdict = Some ''OK'', creationTimeSeconds = Some 1705287300\<rparr>]\<rparr>"

definition feed_midnight :: feed where
  \<comment> \<open>one accepted submission at 19:30 UTC on 2024-01-15, which is 00:30 on 2024-01-16 in Tashkent\<close>
  "feed_midnight h = Inr \<lparr>status = Some ''OK'',
     result = Some [\<lparr>verdict = Some ''OK'', creationTimeSeconds = Some 1705347000\<rparr>]\<rparr>"

definition feed_down :: feed where
  "feed_down h = Inl FeedError"

definition deliver_ok :: "string \<Rightarrow> bool" where
  "deliver_ok uid = True"

definition deliver_fail :: "string \<Rightarrow> bool" where
  "deliver_fail uid = False"

section \<open>Basic facts about dicts, marking and the sweep\<close>

lemma map_of_dict_set: "map_of (dict_set k v d) k' = (if k' = k then Some v else map_of d k')"
  by (induction d) auto

lemma keys_dict_set: "k \<in> fst ` set d \<Longrightarrow> map fst (dict_set k v d) = map fst d"
  by (induction d) force+

lemma DB_save_db: "DB (save_db st) = DB st"
  by (simp add: save_db_def)

lemma lookup_mark_notified:
  "map_of (DB (mark_notified env now uid slot st)) u =
     (if u = uid
      then Some ((case map_of (DB st) uid of None \<Rightarrow> new_record env | Some r0 \<Rightarrow> r0)
                  \<lparr>last_notified := Some (dict_set slot (isoformat (date_today env now))
                     (notified_map (case map_of (DB st) uid of None \<Rightarrow> new_record env | Some r0 \<Rightarrow> r0)))\<rparr>)
      else map_of (DB st) u)"
  by (simp add: mark_notified_def Let_def DB_save_db map_of_dict_set)

lemma keys_mark_notified:
  "uid \<in> fst ` set (DB st) \<Longrightarrow> map fst (DB (mark_notified env now uid slot st)) = map fst (DB st)"
  by (simp add: mark_notified_def Let_def DB_save_db keys_dict_set)

lemma slot_date_mark_notified:
  "slot_date (mark_notified env now uid slot st) u s =
     (if u = uid \<and> s = slot then Some (isoformat (date_today env now)) else slot_date st u s)"
  by (auto simp: slot_date_def lookup_mark_notified notified_map_def map_of_dict_set new_record_def
      split: option.splits)

lemma already_notified_today_slot_date:
  "already_notified_today env now uid slot tz st =
     (slot_date st uid slot = Some (isoformat (local_day env (resolve_tz env tz) now)))"
  by (auto simp: already_notified_today_def slot_date_def notified_map_def split: option.splits)

lemma remind_user_other:
  "u \<noteq> uid \<Longrightarrow> map_of (DB (fst (remind_user env now fetch deliver slot uid r st))) u = map_of (DB st) u"
  by (simp add: remind_user_def Let_def lookup_mark_notified split: option.splits)

lemma remind_user_events_uid:
  "e \<in> set (snd (remind_user env now fetch deliver slot uid r st)) \<Longrightarrow> event_uid e = uid"
  by (auto simp: remind_user_def Let_def split: option.splits if_splits)

lemma remind_user_keys:
  "uid \<in> fst ` set (DB st) \<Longrightarrow>
     map fst (DB (fst (remind_user env now fetch deliver slot uid r st))) = map fst (DB st)"
  by (simp add: remind_user_def Let_def keys_mark_notified split: option.splits)

lemma remind_user_cong:
  assumes "map_of (DB st1) uid = map_of (DB st2) uid"
  shows "snd (remind_user env now fetch deliver slot uid r st1)
           = snd (remind_user env now fetch deliver slot uid r st2)"
    and "map_of (DB (fst (remind_user env now fetch deliver slot uid r st1))) uid
           = map_of (DB (fst (remind_user env now fetch deliver slot uid r st2))) uid"
  using assms
  by (simp_all add: remind_user_def Let_def lookup_mark_notified already_notified_today_def
      split: option.splits)

lemma sweep_skip:
  "uid \<notin> fst ` set items \<Longrightarrow>
     map_of (DB (fst (sweep env now fetch deliver slot items st))) uid = map_of (DB st) uid \<and>
     filter (\<lambda>e. event_uid e = uid) (snd (sweep env now fetch deliver slot items st)) = []"
proof (induction items arbitrary: st)
  case Nil
  then show ?case by simp
next
  case (Cons item items)
  obtain u r where item: "item = (u, r)" by (cases item)
  obtain st1 ev1 where step: "remind_user env now fetch deliver slot u r st = (st1, ev1)"
    by (cases "remind_user env now fetch deliver slot u r st")
  from Cons.prems item have ne: "uid \<noteq> u" and rest: "uid \<notin> fst ` set items" by auto
  have a: "map_of (DB st1) uid = map_of (DB st) uid"
    using remind_user_other [OF ne, of env now fetch deliver slot r st] step by simp
  have b: "filter (\<lambda>e. event_uid e = uid) ev1 = []"
    using remind_user_events_uid [of _ env now fetch deliver slot u r st] step ne
    by (auto simp: filter_empty_conv)
  from Cons.IH [OF rest, of st1] a b item step show ?case
    by (auto split: prod.splits)
qed

lemma sweep_user:
  "distinct (map fst items) \<Longrightarrow> (uid, r) \<in> set items \<Longrightarrow>
     map_of (DB (fst (sweep env now fetch deliver slot items st))) uid
       = map_of (DB (fst (remind_user env now fetch deliver slot uid r st))) uid \<and>
     filter (\<lambda>e. event_uid e = uid) (snd (sweep env now fetch deliver slot items st))
       = snd (remind_user env now fetch deliver slot uid r st)"
proof (induction items arbitrary: st)
  case Nil
  then show ?case by simp
next
  case (Cons item items)
  obtain u r0 where item: "item = (u, r0)" by (cases item)
  obtain st1 ev1 where step: "remind_user env now fetch deliver slot u r0 st = (st1, ev1)"
    by (cases "remind_user env now fetch deliver slot u r0 st")
  show ?case
  proof (cases "(uid, r) = item")
    case True
    with item have eq: "u = uid" "r0 = r" by auto
    from Cons.prems(1) item eq have "uid \<notin> fst ` set items" by auto
    from sweep_skip [OF this, of env now fetch deliver slot st1]
    have "map_of (DB (fst (sweep env now fetch deliver slot items st1))) uid = map_of (DB st1) uid"
      and "filter (\<lambda>e. event_uid e = uid) (snd (sweep env now fetch deliver slot items st1)) = []"
      by auto
    moreover have "filter (\<lambda>e. event_uid e = uid) ev1 = ev1"
      using remind_user_events_uid [of _ env now fetch deliver slot u r0 st] step eq
      by (auto simp: filter_id_conv)
    ultimately show ?thesis using item eq step
      by (auto split: prod.splits)
  next
    case False
    with Cons.prems(2) have mem: "(uid, r) \<in> set items" by auto
    from Cons.prems(1) item mem have ne: "uid \<noteq> u" by force
    from Cons.prems(1) have dist: "distinct (map fst items)" by simp
    have a: "map_of (DB st1) uid = map_of (DB st) uid"
      using remind_user_other [OF ne, of env now fetch deliver slot r0 st] step by simp
    have b: "filter (\<lambda>e. event_uid e = uid) ev1 = []"
      using remind_user_events_uid [of _ env now fetch deliver slot u r0 st] step ne
      by (auto simp: filter_empty_conv)
    from Cons.IH [OF dist mem, of st1] remind_user_cong [OF a, of env now fetch deliver slot r] b item step
    show ?thesis by (auto split: prod.splits)
  qed
qed

lemma sweep_keys:
  "fst ` set items \<subseteq> fst ` set (DB st) \<Longrightarrow>
     map fst (DB (fst (sweep env now fetch deliver slot items st))) = map fst (DB st)"
proof (induction items arbitrary: st)
  case Nil
  then show ?case by simp
next
  case (Cons item items)
  obtain u r where item: "item = (u, r)" by (cases item)
  obtain st1 ev1 where step: "remind_user env now fetch deliver slot u r st = (st1, ev1)"
    by (cases "remind_user env now fetch deliver slot u r st")
  from Cons.prems item have "u \<in> fst ` set (DB st)" by auto
  from remind_user_keys [OF this, of env now fetch deliver slot r] step
  have k: "map fst (DB st1) = map fst (DB st)" by simp
  then have "fst ` set (DB st1) = fst ` set (DB st)" by (metis set_map)
  with Cons.prems have "fst ` set items \<subseteq> fst ` set (DB st1)" by auto
  from Cons.IH [OF this] k item step show ?case by (auto split: prod.splits)
qed

lemma send_reminders_user:
  assumes "distinct (map fst (DB st))" and "map_of (DB st) uid = Some r"
  shows "map_of (DB (fst (send_reminders env now fetch deliver slot st))) uid
           = map_of (DB (fst (remind_user env now fetch deliver slot uid r st))) uid"
    and "filter (\<lambda>e. event_uid e = uid) (snd (send_reminders env now fetch deliver slot st))
           = snd (remind_user env now fetch deliver slot uid r st)"
  using sweep_user [OF assms(1) map_of_SomeD [OF assms(2)], of env now fetch deliver slot st]
  by (simp_all add: send_reminders_def)

lemma send_reminders_keys:
  "map fst (DB (fst (send_reminders env now fetch deliver slot st))) = map fst (DB st)"
  by (simp add: send_reminders_def sweep_keys)

lemma already_notified_after_mark:
  "already_notified_today env now2 uid slot tz (mark_notified env now1 uid slot st)
     = (isoformat (date_today env now1) = isoformat (local_day env (resolve_tz env tz) now2))"
  by (simp add: already_notified_today_slot_date slot_date_mark_notified)

lemma never_marked_not_notified:
  "slot_date st uid slot = None \<Longrightarrow> \<not> already_notified_today env now uid slot tz st"
  by (simp add: already_notified_today_slot_date)

section \<open>Basic facts about the file and the feed\<close>

lemma load_dates_dump: "load_dates (map (\<lambda>(k, v). (k, JStr v)) d) = Some d"
  by (induction d) auto

lemma load_record_to_dict:
  "load_record env (to_dict r) = Some (r\<lparr>last_notified := Some (notified_map r)\<rparr>)"
  by (simp add: to_dict_def load_dates_dump split: option.splits)

lemma load_items_dump:
  "load_items env (map (\<lambda>(k, v). (k, to_dict v)) db)
     = Some (map (\<lambda>(k, r). (k, r\<lparr>last_notified := Some (notified_map r)\<rparr>)) db)"
  by (induction db) (auto simp: load_record_to_dict)

lemma record_view_normalised:
  "record_view (r\<lparr>last_notified := Some (notified_map r)\<rparr>) = record_view r"
  by (simp add: record_view_def notified_map_def)

lemma scan_submissions_spec:
  "list_all (in_datetime_range env name) subs \<Longrightarrow>
     scan_submissions env name day subs = Inr (list_ex (spec_accepted_on env name day) subs)"
  by (induction subs)
     (auto simp: in_datetime_range_def spec_accepted_on_def submission_day_def
           split: option.splits if_splits)

lemma cf_has_solved_today_not_ok:
  "fetch h = Inr data \<Longrightarrow> status data \<noteq> Some ''OK'' \<Longrightarrow>
     cf_has_solved_today env now fetch h tz = Inr False"
  by (simp add: cf_has_solved_today_def Let_def)

lemma cf_has_solved_today_no_handle:
  "cf_has_solved_today env now fetch [] tz = Inr False"
  by (simp add: cf_has_solved_today_def)

section \<open>When two sweeps send once\<close>

text \<open>
  Two sweeps for one slot send a user at most one reminder between them whenever the
  date the first sweep would store (the host's date then) is the date the second one
  compares with (the user's local date then).
\<close>

lemma remind_user_sent_once:
  "length (filter is_sent (snd (remind_user env now fetch deliver slot uid r st))) \<le> 1"
  by (simp add: remind_user_def Let_def split: option.splits)

lemma remind_user_sent_marks:
  "filter is_sent (snd (remind_user env now fetch deliver slot uid r st)) \<noteq> [] \<Longrightarrow>
     slot_date (fst (remind_user env now fetch deliver slot uid r st)) uid slot
       = Some (isoformat (date_today env now))"
  by (simp add: remind_user_def Let_def slot_date_mark_notified split: option.splits if_splits)

lemma remind_user_marked_silent:
  "already_notified_today env now uid slot (timezone r) st \<Longrightarrow>
     snd (remind_user env now fetch deliver slot uid r st) = []"
  by (simp add: remind_user_def split: option.splits)

lemma sweeps_agreeing_dates_send_once:
  assumes "distinct (map fst (DB st))" and "map_of (DB st) uid = Some r"
    and "isoformat (date_today env now) = isoformat (local_day env (resolve_tz env (timezone r)) now2)"
  shows "length (filter is_sent (filter (\<lambda>e. event_uid e = uid)
           (snd (send_reminders env now fetch deliver slot st) @
            snd (send_reminders env now2 fetch2 deliver2 slot
                   (fst (send_reminders env now fetch deliver slot st)))))) \<le> 1"
proof -
  let ?st' = "fst (send_reminders env now fetch deliver slot st)"
  let ?ev1 = "snd (remind_user env now fetch deliver slot uid r st)"
  have ev1: "filter (\<lambda>e. event_uid e = uid) (snd (send_reminders env now fetch deliver slot st)) = ?ev1"
    and lk: "map_of (DB ?st') uid = map_of (DB (fst (remind_user env now fetch deliver slot uid r st))) uid"
    using send_reminders_user [OF assms(1,2), of env now fetch deliver slot] by simp_all
  have dist: "distinct (map fst (DB ?st'))"
    using assms(1) by (simp add: send_reminders_keys)
  have keep: "map_option handle (map_of (DB ?st') uid) = Some (handle r) \<and>
              map_option timezone (map_of (DB ?st') uid) = Some (timezone r)"
    using assms(2) lk
    by (auto simp: remind_user_def Let_def lookup_mark_notified split: option.splits)
  then obtain r' where r': "map_of (DB ?st') uid = Some r'" "handle r' = handle r" "timezone r' = timezone r"
    by (cases "map_of (DB ?st') uid") auto
  let ?ev2 = "snd (remind_user env now2 fetch2 deliver2 slot uid r' ?st')"
  have ev2: "filter (\<lambda>e. event_uid e = uid)
               (snd (send_reminders env now2 fetch2 deliver2 slot ?st')) = ?ev2"
    using send_reminders_user(2) [OF dist r'(1), of env now2 fetch2 deliver2 slot] .
  show ?thesis
  proof (cases "filter is_sent ?ev1 = []")
    case True
    with remind_user_sent_once [of env now2 fetch2 deliver2 slot uid r' ?st'] ev1 ev2
    show ?thesis by simp
  next
    case False
    from remind_user_sent_marks [OF False]
    have "slot_date ?st' uid slot = Some (isoformat (date_today env now))"
      using lk by (simp add: slot_date_def)
    with assms(3) r'(3) have "already_notified_today env now2 uid slot (timezone r') ?st'"
      by (simp add: already_notified_today_slot_date)
    from remind_user_marked_silent [OF this] have "?ev2 = []" .
    with remind_user_sent_once [of env now fetch deliver slot uid r st] ev1 ev2
    show ?thesis by simp
  qed
qed

section \<open>The dedup state: marking\<close>

text \<open>
  C10. \<open>mark_notified(user_id, slot)\<close> changes only the entry of that slot in that user's
  record: for a user who has a record, the handle and the zone of the record stay as they
  were, the entry of every other slot stays as it was, the record of every other user
  stays as it was, and no key is added to the store.
\<close>

theorem mark_notified_frame:
  assumes "map_of (DB st) uid = Some r" and "u \<noteq> uid" and "s \<noteq> slot"
  shows "map_of (DB (mark_notified env now uid slot st)) u = map_of (DB st) u \<and>
         map_option handle (map_of (DB (mark_notified env now uid slot st)) uid) = Some (handle r) \<and>
         map_option timezone (map_of (DB (mark_notified env now uid slot st)) uid) = Some (timezone r) \<and>
         slot_date (mark_notified env now uid slot st) uid s = slot_date st uid s \<and>
         map fst (DB (mark_notified env now uid slot st)) = map fst (DB st)"
proof -
  from assms(1) have "uid \<in> fst ` set (DB st)"
    by (metis map_of_eq_None_iff option.distinct(1))
  then show ?thesis
    using assms by (simp add: lookup_mark_notified keys_mark_notified slot_date_mark_notified)
qed

theorem mark_notified_frame_witness:
  "map_of (DB (mark_notified env_tashkent 1705287600 ''42'' ''08:00'' st_tashkent)) ''7''
     = map_of (DB st_tashkent) ''7'' \<and>
   map_option handle (map_of (DB (mark_notified env_tashkent 1705287600 ''42'' ''08:00'' st_tashkent)) ''42'')
     = Some (Some ''tourist'') \<and>
   map_option timezone (map_of (DB (mark_notified env_tashkent 1705287600 ''42'' ''08:00'' st_tashkent)) ''42'')
     = Some ''Asia/Tashkent'' \<and>
   slot_date (mark_notified env_tashkent 1705287600 ''42'' ''08:00'' st_tashkent) ''42'' ''12:00''
     = slot_date st_tashkent ''42'' ''12:00'' \<and>
   map fst (DB (mark_notified env_tashkent 1705287600 ''42'' ''08:00'' st_tashkent))
     = map fst (DB st_tashkent)"
proof -
  have h1: "map_of (DB st_tashkent) ''42''
              = Some \<lparr>handle = Some ''tourist'', timezone = ''Asia/Tashkent'', last_notified = None\<rparr>"
    by (simp add: st_tashkent_def)
  have h2: "''7'' \<noteq> ''42''" by simp
  have h3: "''12:00'' \<noteq> ''08:00''" by simp
  show ?thesis
    using mark_notified_frame [OF h1 h2 h3, of env_tashkent 1705287600]
    by simp
qed

text \<open>
  C3, at a failing input. The claim: \<open>mark_notified(user_id, slot)\<close> sets
  \<open>last_notified[slot]\<close> of that user's record to today's date in the reference zone
  \<open>DEFAULT_TZ\<close>. The host runs in Los Angeles, the reference zone and the user's zone are
  Tashkent. At 08:00 in Tashkent on 2024-01-15 the date that \<open>mark_notified\<close> stores is
  the host's, 2024-01-14, and not the reference zone's, 2024-01-15; the check
  \<open>already_notified_today\<close>, which computes its date in a zone, then answers \<open>False\<close>
  directly after the mark.
\<close>

theorem mark_notified_los_angeles_host:
  "slot_date (mark_notified env_la_host 1705287600 ''42'' ''08:00'' st_tashkent) ''42'' ''08:00''
     = Some ''2024-01-14'' \<and>
   isoformat (local_day env_la_host (DEFAULT_TZ env_la_host) 1705287600) = ''2024-01-15'' \<and>
   slot_date (mark_notified env_la_host 1705287600 ''42'' ''08:00'' st_tashkent) ''42'' ''08:00''
     \<noteq> Some (isoformat (local_day env_la_host (DEFAULT_TZ env_la_host) 1705287600)) \<and>
   already_notified_today env_la_host 1705287600 ''42'' ''08:00'' ''Asia/Tashkent''
     (mark_notified env_la_host 1705287600 ''42'' ''08:00'' st_tashkent) = False"
  by code_simp

text \<open>
  C2, at a failing input. The host runs in Tashkent and the user's zone is Tokyo. At
  22:00 in Tashkent the host's date is 2024-01-15 and the user's is 2024-01-16:
  \<open>mark_notified\<close> stores the first, \<open>already_notified_today\<close> compares with the second,
  and the check directly after the mark answers \<open>False\<close>.
\<close>

theorem mark_then_check_tokyo:
  "slot_date (mark_notified env_tashkent 1705338000 ''42'' ''22:00'' st_tokyo) ''42'' ''22:00''
     = Some ''2024-01-15'' \<and>
   isoformat (local_day env_tashkent (resolve_tz env_tashkent ''Asia/Tokyo'') 1705338000) = ''2024-01-16'' \<and>
   already_notified_today env_tashkent 1705338000 ''42'' ''22:00'' ''Asia/Tokyo''
     (mark_notified env_tashkent 1705338000 ''42'' ''22:00'' st_tokyo) = False"
  by code_simp

section \<open>Commands\<close>

text \<open>
  C7. When \<open>/settz\<close> is given a name that is not in \<open>all_timezones\<close>, the reply is the
  error message and the state (the store and the file, so also the user's record and
  its zone) is the one before the command.
\<close>

theorem cmd_settz_invalid:
  assumes "args = tz_name # rest" and "tz_name \<notin> set (all_timezones env)"
  shows "cmd_settz env uid args st = (st, SettzInvalid)"
  using assms by (simp add: cmd_settz_def)

theorem cmd_settz_invalid_witness:
  "''Mars/Phobos'' \<notin> set (all_timezones env_tashkent) \<and>
   cmd_settz env_tashkent ''42'' [''Mars/Phobos''] st_tashkent = (st_tashkent, SettzInvalid)"
proof -
  have h1: "[''Mars/Phobos''] = ''Mars/Phobos'' # []" by simp
  have h2: "''Mars/Phobos'' \<notin> set (all_timezones env_tashkent)"
    by (simp add: env_tashkent_def zone_table_def)
  show ?thesis using cmd_settz_invalid [OF h1 h2] h2 by simp
qed

section \<open>The sweep\<close>

text \<open>
  C9. A user whose record has no handle (\<open>None\<close>, or the empty string, which
  \<open>not rec.handle\<close> treats alike) causes no event in a sweep, for any slot: no request to
  the feed, no message, no failed delivery; and the user's record after the sweep is
  the one before.
\<close>

theorem no_handle_untouched:
  assumes "distinct (map fst (DB st))" and "map_of (DB st) uid = Some r"
    and "handle r = None \<or> handle r = Some []"
  shows "filter (\<lambda>e. event_uid e = uid) (snd (send_reminders env now fetch deliver slot st)) = [] \<and>
         map_of (DB (fst (send_reminders env now fetch deliver slot st))) uid = Some r"
proof -
  from assms(3) have "remind_user env now fetch deliver slot uid r st = (st, [])"
    by (auto simp: remind_user_def)
  with send_reminders_user [OF assms(1,2), of env now fetch deliver slot] assms(2)
  show ?thesis by simp
qed

theorem no_handle_untouched_witness:
  "filter (\<lambda>e. event_uid e = ''7'')
     (snd (send_reminders env_tashkent 1705287600 feed_unsolved deliver_ok ''08:00'' st_tashkent)) = [] \<and>
   map_of (DB (fst (send_reminders env_tashkent 1705287600 feed_unsolved deliver_ok ''08:00'' st_tashkent))) ''7''
     = Some \<lparr>handle = None, timezone = ''Asia/Tashkent'',
             last_notified = Some [(''08:00'', ''2024-01-14'')]\<rparr>"
proof -
  have h1: "distinct (map fst (DB st_tashkent))" by (simp add: st_tashkent_def)
  have h2: "map_of (DB st_tashkent) ''7''
              = Some \<lparr>handle = None, timezone = ''Asia/Tashkent'',
                      last_notified = Some [(''08:00'', ''2024-01-14'')]\<rparr>"
    by (simp add: st_tashkent_def)
  have h3: "handle \<lparr>handle = None, timezone = ''Asia/Tashkent'',
                      last_notified = Some [(''08:00'', ''2024-01-14'')]\<rparr> = None \<or>
            handle \<lparr>handle = None, timezone = ''Asia/Tashkent'',
                      last_notified = Some [(''08:00'', ''2024-01-14'')]\<rparr> = Some []"
    by simp
  show ?thesis
    using no_handle_untouched [OF h1 h2 h3, of env_tashkent 1705287600 feed_unsolved deliver_ok "''08:00''"]
    by simp
qed

text \<open>
  C1, at a failing input. The host runs in Tashkent, the user's zone is Tokyo, the feed
  shows no accepted submission and delivery succeeds. The sweep of slot 22:00 runs at
  22:00 in Tashkent and again one minute later: each of the two sweeps sends the user a
  reminder, because the date the first one stored (the host's) is not the date the
  second one compares with (the user's).
\<close>

theorem repeated_sweep_sends_twice:
  "filter is_sent
     (snd (send_reminders env_tashkent 1705338000 feed_unsolved deliver_ok ''22:00'' st_tokyo) @
      snd (send_reminders env_tashkent 1705338060 feed_unsolved deliver_ok ''22:00''
             (fst (send_reminders env_tashkent 1705338000 feed_unsolved deliver_ok ''22:00'' st_tokyo))))
     = [Sent ''42'' ''22:00'' ''tourist'', Sent ''42'' ''22:00'' ''tourist'']"
  by code_simp

section \<open>Persistence round trip\<close>

text \<open>
  C8. For every record store: writing it with \<open>save_db\<close> and reading the file back with
  \<open>load_db\<close> succeeds and gives a store with the same user ids in the same order where,
  for every user id, the record has the same handle, the same zone and the same
  \<open>lastNotified\<close> mapping (a record that has no mapping yet, \<open>None\<close>, is written as the
  empty mapping and read back as the empty mapping).
\<close>

theorem save_then_load:
  "\<exists>db'. load_db env (DATA_FILE (save_db st)) = Some db' \<and>
         map fst db' = map fst (DB st) \<and>
         (\<forall>uid. map_option record_view (map_of db' uid) = map_option record_view (map_of (DB st) uid))"
proof -
  let ?db' = "map (\<lambda>(k, r). (k, r\<lparr>last_notified := Some (notified_map r)\<rparr>)) (DB st)"
  have a: "load_db env (DATA_FILE (save_db st)) = Some ?db'"
    by (simp add: save_db_def load_items_dump)
  have b: "map fst ?db' = map fst (DB st)"
    by (induction "DB st") (auto simp: case_prod_unfold)
  have c: "map_option record_view (map_of ?db' uid) = map_option record_view (map_of (DB st) uid)" for uid
    by (simp add: map_of_map option.map_comp comp_def record_view_normalised)
  from a b c show ?thesis by blast
qed

section \<open>The feed client\<close>

text \<open>
  C4. For a non-empty handle and any zone name, when the feed answers with status
  \<open>OK\<close> and the instants of its accepted submissions are ones a \<open>datetime\<close> can hold,
  \<open>cf_has_solved_today\<close> returns, and returns \<open>True\<close> exactly when some submission of
  the answer has the accepting verdict and its instant, moved into the user's resolved
  zone, falls on today's date in that zone. The witness is a submission accepted at
  19:30 UTC on 2024-01-15 and checked at 20:30 UTC by a user in Tashkent: its UTC date is
  2024-01-15, the local date of the submission and of the check is 2024-01-16, and it
  counts as today.
\<close>

theorem cf_has_solved_today_iff:
  assumes "handle_name \<noteq> []" and "fetch handle_name = Inr data" and "status data = Some ''OK''"
    and "list_all (in_datetime_range env (resolve_tz env tz)) (result_list data)"
  shows "cf_has_solved_today env now fetch handle_name tz
           = Inr (list_ex (spec_accepted_on env (resolve_tz env tz)
                             (local_day env (resolve_tz env tz) now)) (result_list data))"
  using assms by (simp add: cf_has_solved_today_def Let_def scan_submissions_spec)

theorem cf_has_solved_today_iff_witness:
  "cf_has_solved_today env_tashkent 1705350600 feed_midnight ''tourist'' ''Asia/Tashkent'' = Inr True \<and>
   isoformat (1705347000 div 86400) = ''2024-01-15'' \<and>
   isoformat (local_day env_tashkent ''Asia/Tashkent'' 1705350600) = ''2024-01-16''"
proof -
  let ?data = "\<lparr>status = Some ''OK'',
     result = Some [\<lparr>verdict = Some ''OK'', creationTimeSeconds = Some 1705347000\<rparr>]\<rparr>"
  have h1: "''tourist'' \<noteq> []" by simp
  have h2: "feed_midnight ''tourist'' = Inr ?data" by (simp add: feed_midnight_def)
  have h3: "status ?data = Some ''OK''" by simp
  have h4: "list_all (in_datetime_range env_tashkent (resolve_tz env_tashkent ''Asia/Tashkent''))
              (result_list ?data)"
    by code_simp
  have ev: "list_ex (spec_accepted_on env_tashkent (resolve_tz env_tashkent ''Asia/Tashkent'')
                       (local_day env_tashkent (resolve_tz env_tashkent ''Asia/Tashkent'') 1705350600))
              (result_list ?data)"
    by code_simp
  have d1: "isoformat (1705347000 div 86400) = ''2024-01-15''" by code_simp
  have d2: "isoformat (local_day env_tashkent ''Asia/Tashkent'' 1705350600) = ''2024-01-16''"
    by code_simp
  from cf_has_solved_today_iff [where fetch = feed_midnight and now = 1705350600, OF h1 h2 h3 h4]
    ev d1 d2
  show ?thesis by simp
qed

section \<open>The sweep: solved users and failed deliveries\<close>

text \<open>
  C5, as the specification states it: once a sweep has found the user solved, every
  later sweep of the same day, for any slot, is suppressed for the user. The user has
  solved at 07:55; the sweep of 08:00 sends nothing and marks slot 08:00. For the
  sweep of 12:00 on the same day the user is not marked: it asks the feed again, and
  with the feed out of reach it sends the user a reminder.
\<close>

theorem later_slot_not_suppressed_counterexample:
  "snd (send_reminders env_tashkent 1705287600 feed_solved deliver_ok ''08:00'' st_tashkent)
     = [FeedRequest ''42'' ''tourist''] \<and>
   already_notified_today env_tashkent 1705302000 ''42'' ''12:00'' ''Asia/Tashkent''
     (fst (send_reminders env_tashkent 1705287600 feed_solved deliver_ok ''08:00'' st_tashkent)) = False \<and>
   snd (send_reminders env_tashkent 1705302000 feed_down deliver_ok ''12:00''
          (fst (send_reminders env_tashkent 1705287600 feed_solved deliver_ok ''08:00'' st_tashkent)))
     = [FeedRequest ''42'' ''tourist'', Sent ''42'' ''12:00'' ''tourist'']"
  by code_simp

text \<open>
  C5, amended. During a sweep for slot \<open>s\<close>, if a user with a handle, not yet marked
  for \<open>s\<close> today, has already solved today, the sweep asks the feed, sends the user no
  message and calls \<open>mark_notified\<close> for \<open>s\<close>: the user's record after the sweep is the
  one that \<open>mark_notified\<close> leaves, the entry of every other slot stays as it was, and
  so the dedup check of a later sweep for another slot answers as it would have without
  this sweep.
\<close>

theorem solved_user_marks_swept_slot:
  assumes "distinct (map fst (DB st))" and "map_of (DB st) uid = Some r"
    and "handle r = Some h" and "h \<noteq> []"
    and "\<not> already_notified_today env now uid slot (timezone r) st"
    and "cf_has_solved_today env now fetch h (timezone r) = Inr True"
    and "s \<noteq> slot"
  shows "filter (\<lambda>e. event_uid e = uid) (snd (send_reminders env now fetch deliver slot st))
           = [FeedRequest uid h] \<and>
         map_of (DB (fst (send_reminders env now fetch deliver slot st))) uid
           = map_of (DB (mark_notified env now uid slot st)) uid \<and>
         slot_date (fst (send_reminders env now fetch deliver slot st)) uid s = slot_date st uid s \<and>
         already_notified_today env now2 uid s tz (fst (send_reminders env now fetch deliver slot st))
           = already_notified_today env now2 uid s tz st"
proof -
  let ?st' = "fst (send_reminders env now fetch deliver slot st)"
  have step: "remind_user env now fetch deliver slot uid r st
                = (mark_notified env now uid slot st, [FeedRequest uid h])"
    using assms(3-6) by (simp add: remind_user_def)
  from send_reminders_user [OF assms(1,2), of env now fetch deliver slot] step
  have lookup: "map_of (DB ?st') uid = map_of (DB (mark_notified env now uid slot st)) uid"
    and events: "filter (\<lambda>e. event_uid e = uid) (snd (send_reminders env now fetch deliver slot st))
                   = [FeedRequest uid h]"
    by simp_all
  from lookup have "slot_date ?st' uid s = slot_date (mark_notified env now uid slot st) uid s"
    by (simp add: slot_date_def)
  with assms(7) have other: "slot_date ?st' uid s = slot_date st uid s"
    by (simp add: slot_date_mark_notified)
  then have "already_notified_today env now2 uid s tz ?st' = already_notified_today env now2 uid s tz st"
    by (simp add: already_notified_today_slot_date)
  with events lookup other show ?thesis by simp
qed

theorem solved_user_marks_swept_slot_witness:
  "filter (\<lambda>e. event_uid e = ''42'')
     (snd (send_reminders env_tashkent 1705287600 feed_solved deliver_ok ''08:00'' st_tashkent))
     = [FeedRequest ''42'' ''tourist''] \<and>
   map_of (DB (fst (send_reminders env_tashkent 1705287600 feed_solved deliver_ok ''08:00'' st_tashkent))) ''42''
     = Some \<lparr>handle = Some ''tourist'', timezone = ''Asia/Tashkent'',
             last_notified = Some [(''08:00'', ''2024-01-15'')]\<rparr> \<and>
   slot_date (fst (send_reminders env_tashkent 1705287600 feed_solved deliver_ok ''08:00'' st_tashkent))
     ''42'' ''12:00'' = None \<and>
   already_notified_today env_tashkent 1705302000 ''42'' ''12:00'' ''Asia/Tashkent''
     (fst (send_reminders env_tashkent 1705287600 feed_solved deliver_ok ''08:00'' st_tashkent)) = False"
proof -
  let ?r = "\<lparr>handle = Some ''tourist'', timezone = ''Asia/Tashkent'', last_notified = None\<rparr>"
  have h1: "distinct (map fst (DB st_tashkent))" by (simp add: st_tashkent_def)
  have h2: "map_of (DB st_tashkent) ''42'' = Some ?r" by (simp add: st_tashkent_def)
  have h3: "handle ?r = Some ''tourist''" by simp
  have h4: "''tourist'' \<noteq> []" by simp
  have h5: "\<not> already_notified_today env_tashkent 1705287600 ''42'' ''08:00'' (timezone ?r) st_tashkent"
    by code_simp
  have h6: "cf_has_solved_today env_tashkent 1705287600 feed_solved ''tourist'' (timezone ?r) = Inr True"
    by code_simp
  have h7: "''12:00'' \<noteq> ''08:00''" by simp
  have m: "map_of (DB (mark_notified env_tashkent 1705287600 ''42'' ''08:00'' st_tashkent)) ''42''
             = Some \<lparr>handle = Some ''tourist'', timezone = ''Asia/Tashkent'',
                     last_notified = Some [(''08:00'', ''2024-01-15'')]\<rparr>"
    by code_simp
  have e1: "slot_date st_tashkent ''42'' ''12:00'' = None" by code_simp
  have e2: "already_notified_today env_tashkent 1705302000 ''42'' ''12:00'' ''Asia/Tashkent'' st_tashkent = False"
    by code_simp
  from solved_user_marks_swept_slot [where fetch = feed_solved and deliver = deliver_ok
      and ?now2.0 = 1705302000 and tz = "''Asia/Tashkent''", OF h1 h2 h3 h4 h5 h6 h7] m e1 e2
  show ?thesis by simp
qed

text \<open>
  C6. During a sweep, if the user is owed a reminder (a handle, not marked for the slot
  today, the feed check not \<open>True\<close>) and the delivery raises, the sweep asks the feed,
  fails to deliver, and does not mark: the user's record after the sweep is the record
  before it. A later sweep for the same slot on the same local day of the user, with the
  user still unsolved, attempts the delivery again.
\<close>

theorem delivery_failure_not_marked:
  assumes "distinct (map fst (DB st))" and "map_of (DB st) uid = Some r"
    and "handle r = Some h" and "h \<noteq> []"
    and "\<not> already_notified_today env now uid slot (timezone r) st"
    and "cf_has_solved_today env now fetch h (timezone r) \<noteq> Inr True"
    and "\<not> deliver uid"
    and "local_day env (resolve_tz env (timezone r)) now2 = local_day env (resolve_tz env (timezone r)) now"
    and "cf_has_solved_today env now2 fetch2 h (timezone r) \<noteq> Inr True"
  shows "filter (\<lambda>e. event_uid e = uid) (snd (send_reminders env now fetch deliver slot st))
           = [FeedRequest uid h, SendFailed uid slot h] \<and>
         map_of (DB (fst (send_reminders env now fetch deliver slot st))) uid = Some r \<and>
         filter (\<lambda>e. event_uid e = uid)
           (snd (send_reminders env now2 fetch2 deliver2 slot
                   (fst (send_reminders env now fetch deliver slot st))))
           = [FeedRequest uid h, if deliver2 uid then Sent uid slot h else SendFailed uid slot h]"
proof -
  let ?st' = "fst (send_reminders env now fetch deliver slot st)"
  have unsolved: "(case cf_has_solved_today env t f h (timezone r) of Inl e \<Rightarrow> False | Inr b \<Rightarrow> b) = False"
    if "cf_has_solved_today env t f h (timezone r) \<noteq> Inr True" for t f
    using that by (cases "cf_has_solved_today env t f h (timezone r)") auto
  have step: "remind_user env now fetch deliver slot uid r st
                = (st, [FeedRequest uid h, SendFailed uid slot h])"
    using assms(3-5,7) unsolved [OF assms(6)] by (simp add: remind_user_def)
  from send_reminders_user [OF assms(1,2), of env now fetch deliver slot] step assms(2)
  have lookup: "map_of (DB ?st') uid = Some r"
    and events: "filter (\<lambda>e. event_uid e = uid) (snd (send_reminders env now fetch deliver slot st))
                   = [FeedRequest uid h, SendFailed uid slot h]"
    by simp_all
  have dist: "distinct (map fst (DB ?st'))"
    using assms(1) by (simp add: send_reminders_keys)
  have "already_notified_today env now2 uid slot (timezone r) ?st'
          = already_notified_today env now uid slot (timezone r) st"
    by (simp only: already_notified_today_def lookup assms(2) assms(8))
  with assms(5) have owed: "\<not> already_notified_today env now2 uid slot (timezone r) ?st'" by simp
  have step2: "snd (remind_user env now2 fetch2 deliver2 slot uid r ?st')
                 = [FeedRequest uid h, if deliver2 uid then Sent uid slot h else SendFailed uid slot h]"
    using assms(3,4) owed unsolved [OF assms(9)] by (simp add: remind_user_def)
  from send_reminders_user(2) [OF dist lookup, of env now2 fetch2 deliver2 slot] step2 events lookup
  show ?thesis by simp
qed

theorem delivery_failure_not_marked_witness:
  "filter (\<lambda>e. event_uid e = ''42'')
     (snd (send_reminders env_tashkent 1705302000 feed_unsolved deliver_fail ''12:00'' st_tashkent))
     = [FeedRequest ''42'' ''tourist'', SendFailed ''42'' ''12:00'' ''tourist''] \<and>
   map_of (DB (fst (send_reminders env_tashkent 1705302000 feed_unsolved deliver_fail ''12:00'' st_tashkent))) ''42''
     = Some \<lparr>handle = Some ''tourist'', timezone = ''Asia/Tashkent'', last_notified = None\<rparr> \<and>
   filter (\<lambda>e. event_uid e = ''42'')
     (snd (send_reminders env_tashkent 1705302600 feed_unsolved deliver_ok ''12:00''
             (fst (send_reminders env_tashkent 1705302000 feed_unsolved deliver_fail ''12:00'' st_tashkent))))
     = [FeedRequest ''42'' ''tourist'', Sent ''42'' ''12:00'' ''tourist'']"
proof -
  let ?r = "\<lparr>handle = Some ''tourist'', timezone = ''Asia/Tashkent'', last_notified = None\<rparr>"
  have h1: "distinct (map fst (DB st_tashkent))" by (simp add: st_tashkent_def)
  have h2: "map_of (DB st_tashkent) ''42'' = Some ?r" by (simp add: st_tashkent_def)
  have h3: "handle ?r = Some ''tourist''" by simp
  have h4: "''tourist'' \<noteq> []" by simp
  have h5: "\<not> already_notified_today env_tashkent 1705302000 ''42'' ''12:00'' (timezone ?r) st_tashkent"
    by code_simp
  have h6: "cf_has_solved_today env_tashkent 1705302000 feed_unsolved ''tourist'' (timezone ?r) \<noteq> Inr True"
    by code_simp
  have h7: "\<not> deliver_fail ''42''" by (simp add: deliver_fail_def)
  have h8: "local_day env_tashkent (resolve_tz env_tashkent (timezone ?r)) 1705302600
              = local_day env_tashkent (resolve_tz env_tashkent (timezone ?r)) 1705302000"
    by code_simp
  have h9: "cf_has_solved_today env_tashkent 1705302600 feed_unsolved ''tourist'' (timezone ?r) \<noteq> Inr True"
    by code_simp
  have d: "deliver_ok ''42''" by (simp add: deliver_ok_def)
  from delivery_failure_not_marked [where deliver = deliver_fail and ?deliver2.0 = deliver_ok
      and fetch = feed_unsolved and ?fetch2.0 = feed_unsolved, OF h1 h2 h3 h4 h5 h6 h7 h8 h9] d
  show ?thesis by simp
qed

end
